theory Spec2Isabelle
  imports Complex_Main "HOL-Library.Word"
begin

section \<open>Errors\<close>

text \<open>
  Every \<^verbatim>\<open>raise\<close> of the pipeline is a value of this type. The Python code raises
  \<^verbatim>\<open>ValueError\<close>, \<^verbatim>\<open>FileNotFoundError\<close> and \<^verbatim>\<open>KeyError\<close> with a message; the
  constructors keep the kind of failure and the offending identifier.
\<close>

datatype error =
    NotFound string
  | FormulaError string
  | ColumnNotFound string
  | MissingColumn "string list"
  | NoValidMetrics
  | KeyError string
  | TypeError
  | AttributeError
  | ZeroDivisionError
  | DuplicateError
  | LibraryError string

section \<open>Tables\<close>

subsection \<open>Float64 values\<close>

text \<open>
  A Python \<^verbatim>\<open>float\<close> and a Float64 cell of a Polars column are the same binary64 values: a
  finite number or one of the three non-finite values (the sign of zero is not modelled).
  An arithmetic operation on finite operands computes the exact result and rounds it to
  binary64; the rounding, which also decides overflow to an infinity and underflow, is a
  parameter \<open>rnd\<close> of every operation, so that nothing proved below depends on an exact
  result. Polars' element-wise arithmetic never raises: a quotient with a zero divisor is
  an infinity or NaN.
\<close>

datatype f64 = Fin real | PInf | NInf | NaN

fun f64_neg :: "f64 \<Rightarrow> f64" where
  "f64_neg (Fin x) = Fin (- x)"
| "f64_neg PInf = NInf"
| "f64_neg NInf = PInf"
| "f64_neg NaN = NaN"

fun f64_abs :: "f64 \<Rightarrow> f64" where
  "f64_abs (Fin x) = Fin \<bar>x\<bar>"
| "f64_abs PInf = PInf"
| "f64_abs NInf = PInf"
| "f64_abs NaN = NaN"

fun f64_add :: "(real \<Rightarrow> f64) \<Rightarrow> f64 \<Rightarrow> f64 \<Rightarrow> f64" where
  "f64_add rnd (Fin x) (Fin y) = rnd (x + y)"
| "f64_add rnd NaN _ = NaN"
| "f64_add rnd _ NaN = NaN"
| "f64_add rnd PInf NInf = NaN"
| "f64_add rnd NInf PInf = NaN"
| "f64_add rnd PInf _ = PInf"
| "f64_add rnd _ PInf = PInf"
| "f64_add rnd NInf _ = NInf"
| "f64_add rnd _ NInf = NInf"

definition f64_sub :: "(real \<Rightarrow> f64) \<Rightarrow> f64 \<Rightarrow> f64 \<Rightarrow> f64" where
  "f64_sub rnd x y = f64_add rnd x (f64_neg y)"

text \<open>The infinity of the given sign, for products and quotients.\<close>

definition signed_inf :: "bool \<Rightarrow> f64" where
  "signed_inf positive = (if positive then PInf else NInf)"

fun f64_mul :: "(real \<Rightarrow> f64) \<Rightarrow> f64 \<Rightarrow> f64 \<Rightarrow> f64" where
  "f64_mul rnd (Fin x) (Fin y) = rnd (x * y)"
| "f64_mul rnd NaN _ = NaN"
| "f64_mul rnd _ NaN = NaN"
| "f64_mul rnd (Fin x) PInf = (if x = 0 then NaN else signed_inf (x > 0))"
| "f64_mul rnd (Fin x) NInf = (if x = 0 then NaN else signed_inf (x < 0))"
| "f64_mul rnd PInf (Fin y) = (if y = 0 then NaN else signed_inf (y > 0))"
| "f64_mul rnd NInf (Fin y) = (if y = 0 then NaN else signed_inf (y < 0))"
| "f64_mul rnd PInf PInf = PInf"
| "f64_mul rnd NInf NInf = PInf"
| "f64_mul rnd PInf NInf = NInf"
| "f64_mul rnd NInf PInf = NInf"

fun f64_div :: "(real \<Rightarrow> f64) \<Rightarrow> f64 \<Rightarrow> f64 \<Rightarrow> f64" where
  "f64_div rnd (Fin x) (Fin y) =
     (if y = 0 then (if x = 0 then NaN else signed_inf (x > 0)) else rnd (x / y))"
| "f64_div rnd NaN _ = NaN"
| "f64_div rnd _ NaN = NaN"
| "f64_div rnd (Fin x) _ = Fin 0"
| "f64_div rnd PInf (Fin y) = signed_inf (y \<ge> 0)"
| "f64_div rnd NInf (Fin y) = signed_inf (y < 0)"
| "f64_div rnd _ _ = NaN"

text \<open>\<^verbatim>\<open>x > 0\<close> on a float: false for NaN.\<close>

fun f64_pos :: "f64 \<Rightarrow> bool" where
  "f64_pos (Fin x) = (x > 0)"
| "f64_pos PInf = True"
| "f64_pos NInf = False"
| "f64_pos NaN = False"

text \<open>The sign of a value that is not NaN: \<open>-1\<close>, \<open>0\<close> or \<open>1\<close>.\<close>

fun f64_sign :: "f64 \<Rightarrow> real" where
  "f64_sign (Fin x) = sgn x"
| "f64_sign PInf = 1"
| "f64_sign NInf = - 1"
| "f64_sign NaN = 0"

text \<open>
  The rounding with no rounding error, for the instances below; binary64 rounding is
  another one.
\<close>

definition exact :: "real \<Rightarrow> f64" where
  "exact x = Fin x"

subsection \<open>Columns and data frames\<close>

text \<open>
  A column (a Polars \<^verbatim>\<open>Series\<close>) has one type for all its cells; \<open>None\<close> is a null cell. A
  date is its day number. A data frame is the ordered list of its named columns, as
  \<^verbatim>\<open>df.columns\<close> lists them. An integer cell is a 64-bit integer, read in two's
  complement (\<open>sint\<close>).
\<close>

datatype series =
    Int64 "64 word option list"
  | Float64 "f64 option list"
  | Utf8 "string option list"
  | Date "int option list"

type_synonym DataFrame = "(string \<times> series) list"

datatype cell = Null | IntCell "64 word" | FloatCell f64 | StrCell string | DateCell int

fun series_len :: "series \<Rightarrow> nat" where
  "series_len (Int64 xs) = length xs"
| "series_len (Float64 xs) = length xs"
| "series_len (Utf8 xs) = length xs"
| "series_len (Date xs) = length xs"

definition columns :: "DataFrame \<Rightarrow> string list" where
  "columns df = map fst df"

definition get_column :: "DataFrame \<Rightarrow> string \<Rightarrow> series option" where
  "get_column df name = map_of df name"

definition height :: "DataFrame \<Rightarrow> nat" where
  "height df = (case df of [] \<Rightarrow> 0 | (_, s) # _ \<Rightarrow> series_len s)"

text \<open>The table invariant: unique column names, one row count for all columns.\<close>

definition wf_frame :: "DataFrame \<Rightarrow> bool" where
  "wf_frame df \<longleftrightarrow> distinct (columns df) \<and> list_all (\<lambda>(_, s). series_len s = height df) df"

definition opt_cell :: "('a \<Rightarrow> cell) \<Rightarrow> 'a option \<Rightarrow> cell" where
  "opt_cell mk x = (case x of None \<Rightarrow> Null | Some v \<Rightarrow> mk v)"

fun cell_at :: "series \<Rightarrow> nat \<Rightarrow> cell" where
  "cell_at (Int64 xs) i = opt_cell IntCell (xs ! i)"
| "cell_at (Float64 xs) i = opt_cell FloatCell (xs ! i)"
| "cell_at (Utf8 xs) i = opt_cell StrCell (xs ! i)"
| "cell_at (Date xs) i = opt_cell DateCell (xs ! i)"

text \<open>
  The rows of a frame, as \<^verbatim>\<open>df.to_dicts()\<close> gives them: one association of column name and
  cell per row index below the height.
\<close>

definition row_at :: "DataFrame \<Rightarrow> nat \<Rightarrow> (string \<times> cell) list" where
  "row_at df i = map (\<lambda>(name, s). (name, cell_at s i)) df"

definition rows :: "DataFrame \<Rightarrow> (string \<times> cell) list list" where
  "rows df = map (row_at df) [0..<height df]"

text \<open>
  \<^verbatim>\<open>df.filter(mask)\<close> keeps the rows whose mask cell is true; a null mask cell drops the
  row.
\<close>

definition keep :: "bool option list \<Rightarrow> 'a list \<Rightarrow> 'a list" where
  "keep flags xs = map fst (filter (\<lambda>(x, b). b = Some True) (zip xs flags))"

fun series_filter :: "bool option list \<Rightarrow> series \<Rightarrow> series" where
  "series_filter flags (Int64 xs) = Int64 (keep flags xs)"
| "series_filter flags (Float64 xs) = Float64 (keep flags xs)"
| "series_filter flags (Utf8 xs) = Utf8 (keep flags xs)"
| "series_filter flags (Date xs) = Date (keep flags xs)"

definition df_filter :: "bool option list \<Rightarrow> DataFrame \<Rightarrow> DataFrame" where
  "df_filter flags df = map (\<lambda>(name, s). (name, series_filter flags s)) df"

text \<open>The row indices that a mask keeps.\<close>

definition kept :: "bool option list \<Rightarrow> nat list" where
  "kept flags = filter (\<lambda>i. flags ! i = Some True) [0..<length flags]"

text \<open>
  \<^verbatim>\<open>df.with_columns(expr.alias(name))\<close>: a column of that name is replaced where it
  stands, a new name is appended.
\<close>

definition with_columns :: "DataFrame \<Rightarrow> string \<Rightarrow> series \<Rightarrow> DataFrame" where
  "with_columns df name s =
     (if name \<in> set (columns df)
      then map (\<lambda>(k, c). if k = name then (k, s) else (k, c)) df
      else df @ [(name, s)])"

text \<open>\<^verbatim>\<open>df.select(names)\<close>: the named columns in the order asked for.\<close>

fun select :: "DataFrame \<Rightarrow> string list \<Rightarrow> error + DataFrame" where
  "select df [] = Inr []"
| "select df (c # cs) =
     (case get_column df c of
        None \<Rightarrow> Inl (ColumnNotFound c)
      | Some s \<Rightarrow>
          (case select df cs of
             Inl e \<Rightarrow> Inl e
           | Inr r \<Rightarrow> if c \<in> set cs then Inl DuplicateError else Inr ((c, s) # r)))"

subsection \<open>What Python and Polars provide\<close>

text \<open>
  The parts of the Python run time and of Polars that are taken as given:
  \<^item> \<open>round_f64\<close>: the rounding of an exact result to binary64;
  \<^item> \<open>unicode_word\<close>, \<open>unicode_space\<close>: the classes \<^verbatim>\<open>\w\<close> and \<^verbatim>\<open>\s\<close> of \<^verbatim>\<open>re\<close> on the characters
    outside ASCII, each character given as its UTF-8 bytes (the two classes are disjoint);
  \<^item> \<open>cast_other\<close>: the conversion of a text or date column to Float64;
  \<^item> \<open>float_sum\<close>: the sum of the non-null cells of a Float64 column (Polars fixes no
    order of summation);
  \<^item> \<open>sum_other\<close>: the sum of a text or date column;
  \<^item> \<open>group_by_agg\<close>: \<^verbatim>\<open>df.group_by(dimensions).agg(sums)\<close>, one row per combination of
    dimension cells, in no promised order.
\<close>

record runtime =
  round_f64 :: "real \<Rightarrow> f64"
  unicode_word :: "string \<Rightarrow> bool"
  unicode_space :: "string \<Rightarrow> bool"
  cast_other :: "series \<Rightarrow> error + f64 option list"
  float_sum :: "f64 list \<Rightarrow> f64"
  sum_other :: "series \<Rightarrow> error + series"
  group_by_agg :: "DataFrame \<Rightarrow> string list \<Rightarrow> string list \<Rightarrow> error + DataFrame"

section \<open>Configuration (core/config.py)\<close>

text \<open>
  The fields of the pydantic models that the pipeline reads. An \<^verbatim>\<open>Optional\<close> field is an
  option; a \<^verbatim>\<open>Dict\<close> is the list of its items in insertion order, with unique keys. The
  \<^verbatim>\<open>dataset\<close> and \<^verbatim>\<open>report\<close> sections of \<^verbatim>\<open>InsightConfig\<close> are flattened into one record. The
  connection of a database source is kept abstract (\<open>'c\<close>).
\<close>

datatype source_type = Csv | Sql | Database

record 'c SourceConfig =
  type :: source_type
  path :: "string option"
  connection_string :: "string option"
  query :: "string option"
  connection :: "'c option"
  table :: "string option"
  date_col :: string
  dimensions :: "string list"
  metrics :: "string list"
  join_key :: "string list option"

record ComparisonConfig =
  current_start :: string
  current_end :: string
  previous_start :: string
  previous_end :: string

record 'c InsightConfig =
  primary_source :: string
  sources :: "(string \<times> 'c SourceConfig) list"
  derived_metrics :: "(string \<times> string) list"
  primary_date_col :: string
  comparison :: ComparisonConfig
  primary_dims :: "string list"
  kpi_priority :: "string list"

section \<open>Ingestion (engine/ingest.py)\<close>

text \<open>\<^verbatim>\<open>sep.join(parts)\<close>.\<close>

fun str_join :: "string \<Rightarrow> string list \<Rightarrow> string" where
  "str_join sep [] = []"
| "str_join sep [x] = x"
| "str_join sep (x # y # ys) = x @ sep @ str_join sep (y # ys)"

definition quoted :: "string \<Rightarrow> string" where
  "quoted c = [CHR 0x22] @ c @ [CHR 0x22]"

subsection \<open>File sources\<close>

text \<open>
  The delimiter detection of \<^verbatim>\<open>load_csv_source\<close>: \<^verbatim>\<open>delimiter = ','\<close>, then the three
  counts of the first line and the two strict comparisons.
\<close>

definition detect_delimiter :: "string \<Rightarrow> char" where
  "detect_delimiter first_line =
     (let semicolon_count = count_list first_line (CHR '';'');
          comma_count = count_list first_line (CHR '','');
          tab_count = count_list first_line (CHR 0x09)
      in if semicolon_count > comma_count \<and> semicolon_count > tab_count then CHR '';''
         else if tab_count > comma_count \<and> tab_count > semicolon_count then CHR 0x09
         else CHR '','')"

text \<open>
  What the loader asks of the file system and of Polars' CSV reader: \<^verbatim>\<open>pathlib\<close>
  (\<^verbatim>\<open>is_absolute\<close>, \<^verbatim>\<open>/\<close>, \<^verbatim>\<open>exists\<close>), \<^verbatim>\<open>readline\<close> on the opened file and
  \<^verbatim>\<open>pl.read_csv\<close>.
\<close>

record file_system =
  is_absolute :: "string \<Rightarrow> bool"
  path_join :: "string \<Rightarrow> string \<Rightarrow> string"
  path_exists :: "string \<Rightarrow> bool"
  readline :: "string \<Rightarrow> error + string"
  read_csv :: "string \<Rightarrow> char \<Rightarrow> error + DataFrame"

definition load_csv_source ::
  "file_system \<Rightarrow> 'c SourceConfig \<Rightarrow> string \<Rightarrow> error + DataFrame" where
  "load_csv_source fs source_config base_path =
     (case path source_config of
        None \<Rightarrow> Inl TypeError
      | Some p \<Rightarrow>
          let file_path = (if base_path \<noteq> [] \<and> \<not> is_absolute fs p
                           then path_join fs base_path p else p)
          in if \<not> path_exists fs file_path then Inl (NotFound file_path)
             else (case readline fs file_path of
                     Inl e \<Rightarrow> Inl e
                   | Inr first_line \<Rightarrow> read_csv fs file_path (detect_delimiter first_line)))"

subsection \<open>Table-reference sources\<close>

text \<open>
  The column list of \<^verbatim>\<open>load_database_source\<close>: the dimensions and the metrics are
  appended as declared (\<^verbatim>\<open>extend\<close>), the date column and each join key only when not yet
  in the list.
\<close>

definition append_new :: "string list \<Rightarrow> string \<Rightarrow> string list" where
  "append_new cols c = (if c \<notin> set cols then cols @ [c] else cols)"

definition select_columns :: "'c SourceConfig \<Rightarrow> string list" where
  "select_columns source_config =
     (let cols0 = dimensions source_config @ metrics source_config;
          cols1 = (if date_col source_config \<noteq> [] then append_new cols0 (date_col source_config)
                   else cols0)
      in case join_key source_config of
           None \<Rightarrow> cols1
         | Some keys \<Rightarrow> foldl append_new cols1 keys)"

definition table_query :: "'c SourceConfig \<Rightarrow> string \<Rightarrow> string" where
  "table_query source_config table_name =
     (let cols = select_columns source_config
      in if cols \<noteq> []
         then ''SELECT '' @ str_join '', '' (map quoted cols) @ '' FROM '' @ quoted table_name
         else ''SELECT * FROM '' @ quoted table_name)"

text \<open>
  The two SQL clients and \<^verbatim>\<open>get_connection_string\<close> of the connection are taken as
  given. The query text is built once and handed to connectorx first and to SQLAlchemy
  when connectorx fails. A missing table name is formatted as the text \<^verbatim>\<open>None\<close>; a missing
  connection has no \<^verbatim>\<open>get_connection_string\<close>.
\<close>

record 'c sql_clients =
  get_connection_string :: "'c \<Rightarrow> error + string"
  connectorx :: "string \<Rightarrow> string \<Rightarrow> error + DataFrame"
  sqlalchemy :: "string \<Rightarrow> string \<Rightarrow> error + DataFrame"

definition load_database_source ::
  "'c sql_clients \<Rightarrow> 'c SourceConfig \<Rightarrow> error + DataFrame" where
  "load_database_source db source_config =
     (let table_name = (case table source_config of None \<Rightarrow> ''None'' | Some t \<Rightarrow> t)
      in case connection source_config of
           None \<Rightarrow> Inl AttributeError
         | Some conn \<Rightarrow>
             (case get_connection_string db conn of
                Inl e \<Rightarrow> Inl e
              | Inr cs \<Rightarrow>
                  let query = table_query source_config table_name
                  in (case connectorx db cs query of
                        Inr df \<Rightarrow> Inr df
                      | Inl _ \<Rightarrow> sqlalchemy db cs query)))"

subsection \<open>Joining sources\<close>

text \<open>
  \<^verbatim>\<open>sources\<close> is the dictionary of loaded frames. The DuckDB engine (register every
  frame, execute one query) and Polars' left join are taken as given.
\<close>

record join_engines =
  duckdb_execute :: "(string \<times> DataFrame) list \<Rightarrow> string \<Rightarrow> error + DataFrame"
  left_join :: "DataFrame \<Rightarrow> DataFrame \<Rightarrow> string list \<Rightarrow> error + DataFrame"

definition join_keys_of :: "'c InsightConfig \<Rightarrow> 'c SourceConfig \<Rightarrow> string list" where
  "join_keys_of config primary_config = append_new (primary_dims config) (date_col primary_config)"

definition join_sql ::
  "(string \<times> DataFrame) list \<Rightarrow> string \<Rightarrow> DataFrame \<Rightarrow> string list \<Rightarrow> string" where
  "join_sql srcs primary_table primary_df join_keys =
     (let primary_cols = columns primary_df;
          others = filter (\<lambda>(table_name, _). table_name \<noteq> primary_table) srcs;
          select_cols =
            map (\<lambda>col. quoted primary_table @ ''.'' @ quoted col @ '' AS '' @ quoted col)
              primary_cols
            @ concat (map (\<lambda>(table_name, df).
                map (\<lambda>col. quoted table_name @ ''.'' @ quoted col @ '' AS '' @ quoted col)
                  (filter (\<lambda>col. col \<notin> set primary_cols \<and> col \<notin> set join_keys) (columns df)))
                others);
          joins = map (\<lambda>(table_name, df).
                    let on_conditions =
                          map (\<lambda>key. quoted primary_table @ ''.'' @ quoted key @ '' = ''
                                        @ quoted table_name @ ''.'' @ quoted key)
                            (filter (\<lambda>key. key \<in> set (columns df)) join_keys)
                    in if on_conditions \<noteq> []
                       then '' LEFT JOIN '' @ quoted table_name @ '' ON ''
                              @ str_join '' AND '' on_conditions
                       else [])
                  others
      in ''SELECT '' @ str_join '', '' select_cols @ '' FROM '' @ quoted primary_table
           @ concat joins)"

definition join_sources_duckdb ::
  "join_engines \<Rightarrow> (string \<times> DataFrame) list \<Rightarrow> 'c InsightConfig \<Rightarrow> error + DataFrame" where
  "join_sources_duckdb eng srcs config =
     (case srcs of
        [(source_name, df)] \<Rightarrow> Inr df
      | _ \<Rightarrow>
          (case map_of (sources config) (primary_source config) of
             None \<Rightarrow> Inl (KeyError (primary_source config))
           | Some primary_config \<Rightarrow>
               (case map_of srcs (primary_source config) of
                  None \<Rightarrow> Inl (KeyError (primary_source config))
                | Some primary_df \<Rightarrow>
                    duckdb_execute eng srcs
                      (join_sql srcs (primary_source config) primary_df
                         (join_keys_of config primary_config)))))"

fun polars_join_loop ::
  "join_engines \<Rightarrow> string \<Rightarrow> string list \<Rightarrow> DataFrame \<Rightarrow> (string \<times> DataFrame) list
     \<Rightarrow> error + DataFrame" where
  "polars_join_loop eng primary_name join_keys result [] = Inr result"
| "polars_join_loop eng primary_name join_keys result ((source_name, df) # rest) =
     (if source_name = primary_name then polars_join_loop eng primary_name join_keys result rest
      else
        let common_keys = filter (\<lambda>k. k \<in> set (columns df) \<and> k \<in> set (columns result)) join_keys
        in if common_keys \<noteq> [] then
             (let right_cols = filter (\<lambda>c. c \<notin> set (columns result) \<or> c \<in> set common_keys)
                                 (columns df)
              in case select df right_cols of
                   Inl e \<Rightarrow> Inl e
                 | Inr df_subset \<Rightarrow>
                     (case left_join eng result df_subset common_keys of
                        Inl e \<Rightarrow> Inl e
                      | Inr joined \<Rightarrow> polars_join_loop eng primary_name join_keys joined rest))
           else polars_join_loop eng primary_name join_keys result rest)"

definition join_sources_polars ::
  "join_engines \<Rightarrow> (string \<times> DataFrame) list \<Rightarrow> 'c InsightConfig \<Rightarrow> error + DataFrame" where
  "join_sources_polars eng srcs config =
     (case srcs of
        [(source_name, df)] \<Rightarrow> Inr df
      | _ \<Rightarrow>
          (case map_of srcs (primary_source config) of
             None \<Rightarrow> Inl (KeyError (primary_source config))
           | Some result \<Rightarrow>
               (case map_of (sources config) (primary_source config) of
                  None \<Rightarrow> Inl (KeyError (primary_source config))
                | Some primary_config \<Rightarrow>
                    polars_join_loop eng (primary_source config)
                      (join_keys_of config primary_config) result srcs)))"

text \<open>\<^verbatim>\<open>try: return join_sources_duckdb(...) except Exception: return join_sources_polars(...)\<close>\<close>

definition join_sources ::
  "join_engines \<Rightarrow> (string \<times> DataFrame) list \<Rightarrow> 'c InsightConfig \<Rightarrow> error + DataFrame" where
  "join_sources eng srcs config =
     (case join_sources_duckdb eng srcs config of
        Inr df \<Rightarrow> Inr df
      | Inl _ \<Rightarrow> join_sources_polars eng srcs config)"

text \<open>A table-reference source and a pair of engines that always fail, for the instances below.\<close>

definition sample_source ::
  "string list \<Rightarrow> string list \<Rightarrow> string list option \<Rightarrow> unit SourceConfig" where
  "sample_source dims ms keys =
     \<lparr>type = Database, path = None, connection_string = None, query = None,
      connection = Some (), table = Some ''conversions'', date_col = ''date'',
      dimensions = dims, metrics = ms, join_key = keys\<rparr>"

definition failing_engines :: join_engines where
  "failing_engines =
     \<lparr>duckdb_execute = (\<lambda>_ _. Inl (LibraryError ''duckdb'')),
      left_join = (\<lambda>_ _ _. Inl (LibraryError ''join''))\<rparr>"

definition sample_config :: "unit InsightConfig" where
  "sample_config =
     \<lparr>primary_source = ''clicks'',
      sources = [(''clicks'', sample_source [''campaign''] [''clicks''] None)],
      derived_metrics = [(''ctr'', ''clicks / impressions'')],
      primary_date_col = ''date'',
      comparison = \<lparr>current_start = ''2025-11-24'', current_end = ''2025-11-30'',
                     previous_start = ''2025-11-17'', previous_end = ''2025-11-23''\<rparr>,
      primary_dims = [''campaign''],
      kpi_priority = [''clicks'']\<rparr>"

section \<open>Metrics (engine/metrics.py)\<close>

subsection \<open>Derived metrics\<close>

text \<open>
  A text is the list of its UTF-8 bytes; \<open>utf8_chars\<close> splits it into its characters, by
  the length that the first byte of each announces.
\<close>

definition utf8_extra :: "char \<Rightarrow> nat" where
  "utf8_extra c =
     (if (of_char c :: nat) < 0xC0 then 0
      else if (of_char c :: nat) < 0xE0 then 1
      else if (of_char c :: nat) < 0xF0 then 2 else 3)"

fun utf8_chars :: "string \<Rightarrow> string list" where
  "utf8_chars [] = []"
| "utf8_chars (c # cs) = (c # take (utf8_extra c) cs) # utf8_chars (drop (utf8_extra c) cs)"

text \<open>
  The pattern \<^verbatim>\<open>^\s*(\w+)\s*([+\-*/])\s*(\w+)\s*$\<close>. On ASCII, \<^verbatim>\<open>\w\<close> is a letter, a digit or
  the underscore and \<^verbatim>\<open>\s\<close> is one of ten control and space characters; on the other
  characters the two classes are those of the run time. Word characters, white space and
  the four operators are disjoint, so each greedy group is the longest run of its class.
\<close>

definition is_word :: "runtime \<Rightarrow> string \<Rightarrow> bool" where
  "is_word rt ch =
     (case ch of
        [c] \<Rightarrow> c \<in> set ''abcdefghijklmnopqrstuvwxyzABCDEFGHIJKLMNOPQRSTUVWXYZ0123456789_''
      | _ \<Rightarrow> unicode_word rt ch)"

definition is_space :: "runtime \<Rightarrow> string \<Rightarrow> bool" where
  "is_space rt ch =
     (case ch of
        [c] \<Rightarrow> c \<in> set [CHR 0x09, CHR 0x0A, CHR 0x0B, CHR 0x0C, CHR 0x0D,
                        CHR 0x1C, CHR 0x1D, CHR 0x1E, CHR 0x1F, CHR 0x20]
      | _ \<Rightarrow> unicode_space rt ch)"

definition parse_formula :: "runtime \<Rightarrow> string \<Rightarrow> error + (string \<times> string \<times> string)" where
  "parse_formula rt formula =
     (let s1 = dropWhile (is_space rt) (utf8_chars formula);
          operand1 = takeWhile (is_word rt) s1;
          s2 = dropWhile (is_space rt) (dropWhile (is_word rt) s1)
      in if operand1 = [] then Inl (FormulaError formula)
         else (case s2 of
                 [] \<Rightarrow> Inl (FormulaError formula)
               | op # s3 \<Rightarrow>
                   if op \<notin> set [''+'', ''-'', ''*'', ''/''] then Inl (FormulaError formula)
                   else
                     let s4 = dropWhile (is_space rt) s3;
                         operand2 = takeWhile (is_word rt) s4;
                         s5 = dropWhile (is_space rt) (dropWhile (is_word rt) s4)
                     in if operand2 = [] \<or> s5 \<noteq> [] then Inl (FormulaError formula)
                        else Inr (concat operand1, op, concat operand2)))"

text \<open>
  \<^verbatim>\<open>pl.col(c).cast(pl.Float64)\<close>: an integer cell becomes the binary64 value nearest to it,
  a null stays null. The conversion of a text or date column is that of the run time.
\<close>

definition cast_float64 :: "runtime \<Rightarrow> series \<Rightarrow> error + f64 option list" where
  "cast_float64 rt s =
     (case s of
        Int64 xs \<Rightarrow> Inr (map (map_option (\<lambda>i. round_f64 rt (of_int (sint i)))) xs)
      | Float64 xs \<Rightarrow> Inr xs
      | _ \<Rightarrow> cast_other rt s)"

text \<open>Element-wise arithmetic: a null operand gives a null cell.\<close>

definition lift2 :: "(f64 \<Rightarrow> f64 \<Rightarrow> f64) \<Rightarrow> f64 option \<Rightarrow> f64 option \<Rightarrow> f64 option" where
  "lift2 f x y = (case (x, y) of (Some a, Some b) \<Rightarrow> Some (f a b) | _ \<Rightarrow> None)"

text \<open>
  \<^verbatim>\<open>pl.when(col2 != 0).then(col1 / col2).otherwise(0.0)\<close>: the comparison of a null is
  null, NaN differs from 0, and every cell whose condition is not true takes the
  \<^verbatim>\<open>otherwise\<close> value.
\<close>

definition ne_zero :: "f64 option \<Rightarrow> bool option" where
  "ne_zero y = map_option (\<lambda>v. v \<noteq> Fin 0) y"

definition guarded_div :: "(real \<Rightarrow> f64) \<Rightarrow> f64 option \<Rightarrow> f64 option \<Rightarrow> f64 option" where
  "guarded_div rnd x y = (if ne_zero y = Some True then lift2 (f64_div rnd) x y else Some (Fin 0))"

definition compute_derived_metric ::
  "runtime \<Rightarrow> DataFrame \<Rightarrow> string \<Rightarrow> string \<Rightarrow> error + DataFrame" where
  "compute_derived_metric rt df metric_name formula =
     (case parse_formula rt formula of
        Inl e \<Rightarrow> Inl e
      | Inr (operand1, operator, operand2) \<Rightarrow>
          (case get_column df operand1 of
             None \<Rightarrow> Inl (ColumnNotFound operand1)
           | Some s1 \<Rightarrow>
               (case get_column df operand2 of
                  None \<Rightarrow> Inl (ColumnNotFound operand2)
                | Some s2 \<Rightarrow>
                    (case cast_float64 rt s1 of
                       Inl e \<Rightarrow> Inl e
                     | Inr col1 \<Rightarrow>
                         (case cast_float64 rt s2 of
                            Inl e \<Rightarrow> Inl e
                          | Inr col2 \<Rightarrow>
                              if operator = ''+'' then
                                Inr (with_columns df metric_name
                                       (Float64 (map2 (lift2 (f64_add (round_f64 rt))) col1 col2)))
                              else if operator = ''-'' then
                                Inr (with_columns df metric_name
                                       (Float64 (map2 (lift2 (f64_sub (round_f64 rt))) col1 col2)))
                              else if operator = ''*'' then
                                Inr (with_columns df metric_name
                                       (Float64 (map2 (lift2 (f64_mul (round_f64 rt))) col1 col2)))
                              else if operator = ''/'' then
                                Inr (with_columns df metric_name
                                       (Float64 (map2 (guarded_div (round_f64 rt)) col1 col2)))
                              else Inl (FormulaError operator))))))"

fun compute_all_derived_metrics ::
  "runtime \<Rightarrow> DataFrame \<Rightarrow> (string \<times> string) list \<Rightarrow> error + DataFrame" where
  "compute_all_derived_metrics rt df [] = Inr df"
| "compute_all_derived_metrics rt df ((metric_name, formula) # rest) =
     (case compute_derived_metric rt df metric_name formula of
        Inl e \<Rightarrow> Inl e
      | Inr df' \<Rightarrow> compute_all_derived_metrics rt df' rest)"

text \<open>
  An operand cell promoted to Float64, as the division sees it: the binary64 value of an
  integer cell, a float cell as it is, no value for a null.
\<close>

fun promote :: "(real \<Rightarrow> f64) \<Rightarrow> cell \<Rightarrow> f64 option" where
  "promote rnd (IntCell i) = Some (rnd (of_int (sint i)))"
| "promote rnd (FloatCell v) = Some v"
| "promote rnd _ = None"

subsection \<open>Period split\<close>

text \<open>
  \<^verbatim>\<open>(pl.col(date_col) >= start) & (pl.col(date_col) <= end)\<close> on a Date column: each
  comparison is null on a null cell, and \<^verbatim>\<open>&\<close> is the three-valued conjunction. A column
  of another type is not compared with a date in this model.
\<close>

definition and_kleene :: "bool option \<Rightarrow> bool option \<Rightarrow> bool option" where
  "and_kleene a b =
     (if a = Some False \<or> b = Some False then Some False
      else if a = Some True \<and> b = Some True then Some True
      else None)"

definition period_mask :: "int option list \<Rightarrow> int \<Rightarrow> int \<Rightarrow> bool option list" where
  "period_mask ds start finish =
     map2 and_kleene (map (map_option (\<lambda>d. d \<ge> start)) ds) (map (map_option (\<lambda>d. d \<le> finish)) ds)"

definition filter_period :: "DataFrame \<Rightarrow> string \<Rightarrow> int \<Rightarrow> int \<Rightarrow> error + DataFrame" where
  "filter_period df date_column start finish =
     (case get_column df date_column of
        None \<Rightarrow> Inl (ColumnNotFound date_column)
      | Some (Date ds) \<Rightarrow> Inr (df_filter (period_mask ds start finish) df)
      | Some _ \<Rightarrow> Inl (LibraryError ''date comparison''))"

text \<open>
  \<^verbatim>\<open>datetime.strptime(s, "%Y-%m-%d").date()\<close> is taken as given (\<open>strptime\<close>): it gives the
  day number of the date or fails. The four bounds are parsed before any row is looked at.
\<close>

definition split_by_period ::
  "(string \<Rightarrow> error + int) \<Rightarrow> DataFrame \<Rightarrow> 'c InsightConfig \<Rightarrow> error + (DataFrame \<times> DataFrame)"
  where
  "split_by_period strptime df config =
     (let date_column = primary_date_col config; cmp = comparison config
      in case strptime (current_start cmp) of Inl e \<Rightarrow> Inl e | Inr cs \<Rightarrow>
         (case strptime (current_end cmp) of Inl e \<Rightarrow> Inl e | Inr ce \<Rightarrow>
         (case strptime (previous_start cmp) of Inl e \<Rightarrow> Inl e | Inr ps \<Rightarrow>
         (case strptime (previous_end cmp) of Inl e \<Rightarrow> Inl e | Inr pe \<Rightarrow>
         (case filter_period df date_column cs ce of Inl e \<Rightarrow> Inl e | Inr current_df \<Rightarrow>
         (case filter_period df date_column ps pe of Inl e \<Rightarrow> Inl e | Inr previous_df \<Rightarrow>
            Inr (current_df, previous_df)))))))"

text \<open>The date cell of a row lies in the closed interval from \<open>start\<close> to \<open>finish\<close>.\<close>

definition in_period :: "(string \<times> cell) list \<Rightarrow> string \<Rightarrow> int \<Rightarrow> int \<Rightarrow> bool" where
  "in_period r date_column start finish =
     (case map_of r date_column of
        Some (DateCell d) \<Rightarrow> start \<le> d \<and> d \<le> finish
      | _ \<Rightarrow> False)"

subsection \<open>Aggregation\<close>

text \<open>
  \<^verbatim>\<open>pl.col(m).sum()\<close> adds the non-null cells of a column, from 0: in 64-bit two's
  complement for an integer column, so that the sum wraps on overflow; as the run time does
  for a Float64 column and for a text or date column.
\<close>

definition non_null :: "'a option list \<Rightarrow> 'a list" where
  "non_null xs = map the (filter (\<lambda>x. x \<noteq> None) xs)"

definition series_sum :: "runtime \<Rightarrow> series \<Rightarrow> error + series" where
  "series_sum rt s =
     (case s of
        Int64 xs \<Rightarrow> Inr (Int64 [Some (sum_list (non_null xs))])
      | Float64 xs \<Rightarrow> Inr (Float64 [Some (float_sum rt (non_null xs))])
      | _ \<Rightarrow> sum_other rt s)"

fun sum_exprs :: "runtime \<Rightarrow> DataFrame \<Rightarrow> string list \<Rightarrow> error + DataFrame" where
  "sum_exprs rt df [] = Inr []"
| "sum_exprs rt df (m # ms) =
     (case get_column df m of
        None \<Rightarrow> Inl (ColumnNotFound m)
      | Some s \<Rightarrow>
          (case series_sum rt s of
             Inl e \<Rightarrow> Inl e
           | Inr t \<Rightarrow>
               (case sum_exprs rt df ms of
                  Inl e \<Rightarrow> Inl e
                | Inr r \<Rightarrow> Inr ((m, t) # r))))"

text \<open>
  \<^verbatim>\<open>df.select(agg_exprs)\<close>: no expression gives the empty frame (no column, no row); the
  expressions are evaluated, then two results with one output name are refused.
\<close>

definition select_sums :: "runtime \<Rightarrow> DataFrame \<Rightarrow> string list \<Rightarrow> error + DataFrame" where
  "select_sums rt df ms =
     (if ms = [] then Inr []
      else (case sum_exprs rt df ms of
              Inl e \<Rightarrow> Inl e
            | Inr r \<Rightarrow> if \<not> distinct ms then Inl DuplicateError else Inr r))"

definition aggregate_by_dimensions ::
  "runtime \<Rightarrow> DataFrame \<Rightarrow> string list \<Rightarrow> string list \<Rightarrow> error + DataFrame" where
  "aggregate_by_dimensions rt df dims ms =
     (if dims = [] then
        select_sums rt df (filter (\<lambda>m. m \<in> set (columns df)) ms)
      else
        let missing_dims = filter (\<lambda>d. d \<notin> set (columns df)) dims
        in if missing_dims \<noteq> [] then Inl (MissingColumn missing_dims)
           else
             let agg_exprs = filter (\<lambda>m. m \<in> set (columns df)) ms
             in if agg_exprs = [] then Inl NoValidMetrics
                else group_by_agg rt df dims agg_exprs)"

text \<open>
  The total of a numeric column, as a cell: for an integer column the sum of its cells as
  integers (a null counting 0), reduced to 64 bits; for a Float64 column the sum that the
  run time gives for its values.
\<close>

definition is_numeric :: "series \<Rightarrow> bool" where
  "is_numeric s = (case s of Int64 _ \<Rightarrow> True | Float64 _ \<Rightarrow> True | _ \<Rightarrow> False)"

definition column_total :: "runtime \<Rightarrow> series \<Rightarrow> cell" where
  "column_total rt s =
     (case s of
        Int64 xs \<Rightarrow>
          IntCell (word_of_int (sum_list (map (\<lambda>x. case x of None \<Rightarrow> 0 | Some w \<Rightarrow> sint w) xs)))
      | Float64 xs \<Rightarrow>
          FloatCell (float_sum rt (concat (map (\<lambda>x. case x of None \<Rightarrow> [] | Some v \<Rightarrow> [v]) xs)))
      | _ \<Rightarrow> Null)"

text \<open>
  A table, a parser of the four bounds of the sample window and a run time for the
  instances below: exact rounding, ASCII classes only, a left-to-right float sum, and no
  conversion, sum or grouping beyond the numeric columns.
\<close>

definition sample_frame :: DataFrame where
  "sample_frame =
     [(''date'', Date [Some 20416, Some 20409, Some 20400, None, Some 20422, Some 20415]),
      (''campaign'', Utf8 [Some ''a'', Some ''b'', Some ''c'', Some ''d'', None, Some ''f'']),
      (''clicks'', Int64 [Some 10, Some 5, Some 7, Some 1, Some 2, None]),
      (''impressions'', Int64 [Some 100, Some 0, Some 70, None, Some 20, Some 0])]"

definition sample_strptime :: "string \<Rightarrow> error + int" where
  "sample_strptime s =
     (if s = ''2025-11-24'' then Inr 20416
      else if s = ''2025-11-30'' then Inr 20422
      else if s = ''2025-11-17'' then Inr 20409
      else if s = ''2025-11-23'' then Inr 20415
      else Inl (LibraryError ''strptime''))"

definition sample_runtime :: runtime where
  "sample_runtime =
     \<lparr>round_f64 = exact,
      unicode_word = (\<lambda>_. False),
      unicode_space = (\<lambda>_. False),
      cast_other = (\<lambda>_. Inl (LibraryError ''cast'')),
      float_sum = foldl (f64_add exact) (Fin 0),
      sum_other = (\<lambda>_. Inl (LibraryError ''sum'')),
      group_by_agg = (\<lambda>_ _ _. Inl (LibraryError ''group_by''))\<rparr>"

definition spend_frame :: DataFrame where
  "spend_frame =
     [(''spend'', Float64 [Some (Fin 1.5), None, Some (Fin 2.25)]),
      (''views'', Int64 [Some 4, Some 5, None])]"

section \<open>Insight engine (engine/insights.py)\<close>

text \<open>
  \<^verbatim>\<open>compute_delta\<close> and \<^verbatim>\<open>compute_delta_pct\<close> work on Python floats, non-finite values
  included, with the rounding as a parameter. Python's \<^verbatim>\<open>/\<close> raises on a zero divisor.
\<close>

definition py_truediv :: "(real \<Rightarrow> f64) \<Rightarrow> f64 \<Rightarrow> f64 \<Rightarrow> error + f64" where
  "py_truediv rnd x y = (if y = Fin 0 then Inl ZeroDivisionError else Inr (f64_div rnd x y))"

definition compute_delta :: "(real \<Rightarrow> f64) \<Rightarrow> f64 \<Rightarrow> f64 \<Rightarrow> f64" where
  "compute_delta rnd current previous = f64_sub rnd current previous"

definition compute_delta_pct :: "(real \<Rightarrow> f64) \<Rightarrow> f64 \<Rightarrow> f64 \<Rightarrow> error + f64" where
  "compute_delta_pct rnd current previous =
     (if previous = Fin 0 then
        (if current = Fin 0 then Inr (Fin 0)
         else Inr (if f64_pos current then Fin 100 else Fin (- 100)))
      else
        (case py_truediv rnd (f64_sub rnd current previous) (f64_abs previous) of
           Inl e \<Rightarrow> Inl e
         | Inr q \<Rightarrow> Inr (f64_mul rnd q (Fin 100))))"

text \<open>
  The impact score and the ranking only multiply by factors that are not negative, round
  and compare; they are modelled on the real numbers, a score being a finite number.
  Integers (\<^verbatim>\<open>metric_priority\<close>, \<^verbatim>\<open>total_metrics\<close>, \<^verbatim>\<open>top_n\<close>) are Python's unbounded
  integers.
\<close>




text \<open>
  The \<^verbatim>\<open>dimensions\<close> of a record, its dimension values, are cells of its row; the field is
  named \<open>dimension_values\<close> here, \<open>dimensions\<close> being a field of the source configuration.
\<close>

record InsightRecord =
  dimension_values :: "(string \<times> cell) list"
  metric :: string
  current_value :: real
  previous_value :: real
  delta :: real
  delta_pct :: real
  impact_score :: real
  direction :: string

text \<open>
  \<^verbatim>\<open>xs[:n]\<close>: the first \<open>n\<close> elements, and for a negative \<open>n\<close> all but the last \<open>-n\<close>.
\<close>

definition py_slice_to :: "'a list \<Rightarrow> int \<Rightarrow> 'a list" where
  "py_slice_to xs n =
     (if 0 \<le> n then take (nat n) xs else take (length xs - nat (- n)) xs)"

text \<open>
  \<^verbatim>\<open>sorted(filtered, key=lambda x: x.impact_score, reverse=True)\<close> is a stable sort by
  descending score: records with equal scores keep their order. \<^verbatim>\<open>if top_n:\<close> is false
  for \<^verbatim>\<open>None\<close> and for \<open>0\<close>.
\<close>

definition rank_insights ::
  "InsightRecord list \<Rightarrow> int option \<Rightarrow> real \<Rightarrow> InsightRecord list" where
  "rank_insights insights top_n min_impact =
     (let filtered = filter (\<lambda>i. impact_score i \<ge> min_impact) insights;
          ranked = sort_key (\<lambda>x. - impact_score x) filtered
      in case top_n of
           None \<Rightarrow> ranked
         | Some n \<Rightarrow> if n \<noteq> 0 then py_slice_to ranked n else ranked)"

text \<open>A record with a given metric name and score, for the instances below.\<close>

definition sample_insight :: "string \<Rightarrow> real \<Rightarrow> InsightRecord" where
  "sample_insight m s =
     \<lparr>dimension_values = [], metric = m, current_value = s, previous_value = 0,
      delta = s, delta_pct = 100, impact_score = s, direction = ''up''\<rparr>"

section \<open>Properties of ingestion\<close>

subsection \<open>Delimiter detection\<close>

text \<open>
  C2, as the code has it. The loader counts comma, semicolon and tab in the header line.
  It chooses the semicolon exactly when the semicolon is strictly more frequent than each
  of the other two, the tab exactly when the tab is, and the comma in every other case. So
  a chosen semicolon or tab is the strict maximum; the comma is chosen without being
  maximal exactly when semicolon and tab tie above it.
\<close>

theorem detect_delimiter_choice:
  "(count_list l (CHR '';'') > count_list l (CHR '','')
      \<and> count_list l (CHR '';'') > count_list l (CHR 0x09)
      \<longrightarrow> detect_delimiter l = CHR '';'')
   \<and> (count_list l (CHR 0x09) > count_list l (CHR '','')
      \<and> count_list l (CHR 0x09) > count_list l (CHR '';'')
      \<longrightarrow> detect_delimiter l = CHR 0x09)
   \<and> (detect_delimiter l = CHR '';''
      \<longrightarrow> count_list l (CHR '';'') > count_list l (CHR '','')
        \<and> count_list l (CHR '';'') > count_list l (CHR 0x09))
   \<and> (detect_delimiter l = CHR 0x09
      \<longrightarrow> count_list l (CHR 0x09) > count_list l (CHR '','')
        \<and> count_list l (CHR 0x09) > count_list l (CHR '';''))
   \<and> detect_delimiter l \<in> {CHR '','', CHR '';'', CHR 0x09}
   \<and> ((detect_delimiter l = CHR '',''
        \<and> (count_list l (CHR '','') < count_list l (CHR '';'')
           \<or> count_list l (CHR '','') < count_list l (CHR 0x09)))
      \<longleftrightarrow> (count_list l (CHR '','') < count_list l (CHR '';'')
           \<and> count_list l (CHR '';'') = count_list l (CHR 0x09)))"
  by (auto simp add: detect_delimiter_def Let_def)

theorem detect_delimiter_choice_witness:
  "detect_delimiter ''date;campaign;clicks,x'' = CHR '';''
   \<and> detect_delimiter [CHR ''a'', CHR 0x09, CHR ''b''] = CHR 0x09
   \<and> detect_delimiter ''a,b;c'' = CHR '',''"
  using detect_delimiter_choice [of "''date;campaign;clicks,x''"]
    detect_delimiter_choice [of "[CHR ''a'', CHR 0x09, CHR ''b'']"]
  by (simp add: detect_delimiter_def)

text \<open>
  C2 as stated fails on a header with one semicolon, one tab and no comma: the comma is
  chosen although it occurs least.
\<close>

theorem detect_delimiter_tie_counterexample:
  "detect_delimiter [CHR ''a'', CHR '';'', CHR ''b'', CHR 0x09, CHR ''c''] = CHR '',''
   \<and> count_list [CHR ''a'', CHR '';'', CHR ''b'', CHR 0x09, CHR ''c''] (CHR '','') = 0
   \<and> count_list [CHR ''a'', CHR '';'', CHR ''b'', CHR 0x09, CHR ''c''] (CHR '';'') = 1
   \<and> count_list [CHR ''a'', CHR '';'', CHR ''b'', CHR 0x09, CHR ''c''] (CHR 0x09) = 1"
  by (simp add: detect_delimiter_def)

subsection \<open>Query of a table reference\<close>

text \<open>
  C3. The claim is that the synthesized query selects the declared dimension, metric, date
  and join-key columns with no column name appearing twice. The code tests the date column
  and each join key against the list built so far, but extends the list with the
  dimensions and the metrics without such a test: for a source that declares \<^verbatim>\<open>campaign\<close>
  both as a dimension and as a metric, the query selects \<^verbatim>\<open>campaign\<close> twice.
\<close>

theorem table_query_selects_duplicate:
  "select_columns (sample_source [''campaign''] [''campaign''] None)
     = [''campaign'', ''campaign'', ''date'']
   \<and> \<not> distinct (select_columns (sample_source [''campaign''] [''campaign''] None))
   \<and> table_query (sample_source [''campaign''] [''campaign''] None) ''conversions''
     = ''SELECT '' @ quoted ''campaign'' @ '', '' @ quoted ''campaign'' @ '', '' @ quoted ''date''
         @ '' FROM '' @ quoted ''conversions''"
  by (simp add: select_columns_def table_query_def append_new_def sample_source_def quoted_def)

subsection \<open>A single source\<close>

text \<open>
  C9. For every configuration and every dictionary of sources with exactly one table,
  joining returns that table, unchanged and without error; neither engine is called.
\<close>

theorem join_sources_single:
  "join_sources eng [(source_name, df)] config = Inr df
   \<and> join_sources_duckdb eng [(source_name, df)] config = Inr df
   \<and> join_sources_polars eng [(source_name, df)] config = Inr df"
  by (simp add: join_sources_def join_sources_duckdb_def join_sources_polars_def)

theorem join_sources_single_witness:
  "join_sources failing_engines
     [(''clicks'', [(''campaign'', Utf8 [Some ''a'', None]), (''clicks'', Int64 [Some 3, Some 4])])]
     sample_config
   = Inr [(''campaign'', Utf8 [Some ''a'', None]), (''clicks'', Int64 [Some 3, Some 4])]"
  using join_sources_single
    [of failing_engines "''clicks''"
        "[(''campaign'', Utf8 [Some ''a'', None]), (''clicks'', Int64 [Some 3, Some 4])]"
        sample_config]
  by simp

section \<open>Properties of the metrics module\<close>

subsection \<open>Period split\<close>

lemma keep_Cons: "keep (f # flags) (x # xs) = (if f = Some True then [x] else []) @ keep flags xs"
  by (simp add: keep_def)

lemma kept_Cons: "kept (f # flags) = (if f = Some True then [0] else []) @ map Suc (kept flags)"
proof -
  have "[0..<length (f # flags)] = 0 # map Suc [0..<length flags]"
    by (simp add: upt_conv_Cons map_Suc_upt del: upt_Suc)
  then show ?thesis
    by (simp add: kept_def filter_map comp_def)
qed

lemma keep_nth:
  "length xs = length flags \<Longrightarrow> keep flags xs = map (nth xs) (kept flags)"
proof (induction xs flags rule: list_induct2)
  case Nil
  show ?case by (simp add: keep_def kept_def)
next
  case (Cons x xs f flags)
  then show ?case
    by (simp add: keep_Cons kept_Cons comp_def)
qed

lemma kept_bound: "i \<in> set (kept flags) \<Longrightarrow> i < length flags"
  by (simp add: kept_def)

lemma kept_true: "i \<in> set (kept flags) \<longleftrightarrow> i < length flags \<and> flags ! i = Some True"
  by (auto simp add: kept_def)

lemma keep_filter:
  "length xs = length flags \<Longrightarrow> (\<forall>i < length xs. flags ! i = Some True \<longleftrightarrow> P (xs ! i))
     \<Longrightarrow> keep flags xs = filter P xs"
proof (induction xs flags rule: list_induct2)
  case Nil
  show ?case by (simp add: keep_def)
next
  case (Cons x xs f flags)
  from Cons.prems have h0: "f = Some True \<longleftrightarrow> P x"
    by (metis length_greater_0_conv list.distinct(1) nth_Cons_0)
  from Cons.prems have "\<forall>i < length xs. flags ! i = Some True \<longleftrightarrow> P (xs ! i)"
    by (metis Suc_less_eq length_Cons nth_Cons_Suc)
  with Cons.IH have "keep flags xs = filter P xs" by simp
  with h0 show ?case by (simp add: keep_Cons)
qed

lemma series_filter_len:
  "series_len s = length flags \<Longrightarrow> series_len (series_filter flags s) = length (kept flags)"
  by (cases s) (simp_all add: keep_nth)

lemma series_filter_cell:
  "series_len s = length flags \<Longrightarrow> j < length (kept flags)
     \<Longrightarrow> cell_at (series_filter flags s) j = cell_at s (kept flags ! j)"
  by (cases s) (simp_all add: keep_nth)

lemma columns_df_filter: "columns (df_filter flags df) = columns df"
  by (simp add: df_filter_def columns_def comp_def case_prod_unfold)

lemma height_df_filter:
  assumes "df \<noteq> []" "list_all (\<lambda>(_, s). series_len s = length flags) df"
  shows "height (df_filter flags df) = length (kept flags)"
proof -
  obtain n s rest where df: "df = (n, s) # rest"
    using assms(1) by (cases df) auto
  with assms(2) have "series_len s = length flags" by simp
  then show ?thesis
    by (simp add: df height_def df_filter_def series_filter_len)
qed

lemma row_at_df_filter:
  assumes "list_all (\<lambda>(_, s). series_len s = length flags) df" "j < length (kept flags)"
  shows "row_at (df_filter flags df) j = row_at df (kept flags ! j)"
  using assms
  by (induction df) (auto simp add: row_at_def df_filter_def series_filter_cell)

lemma rows_df_filter:
  assumes "df \<noteq> []" "list_all (\<lambda>(_, s). series_len s = length flags) df"
    and "height df = length flags"
  shows "rows (df_filter flags df) = keep flags (rows df)"
proof -
  have "rows (df_filter flags df) = map (\<lambda>j. row_at df (kept flags ! j)) [0..<length (kept flags)]"
    using assms by (simp add: rows_def height_df_filter row_at_df_filter)
  also have "\<dots> = map (row_at df) (map (nth (kept flags)) [0..<length (kept flags)])"
    by (simp only: map_map comp_def)
  also have "\<dots> = map (row_at df) (kept flags)"
    by (simp only: map_nth)
  also have "\<dots> = map (nth (rows df)) (kept flags)"
    using assms(3) by (auto simp add: rows_def kept_true)
  also have "\<dots> = keep flags (rows df)"
    using assms(3) by (simp add: keep_nth rows_def)
  finally show ?thesis .
qed


lemma length_period_mask: "length (period_mask ds start finish) = length ds"
  by (simp add: period_mask_def)

lemma period_mask_true:
  "i < length ds \<Longrightarrow> period_mask ds start finish ! i = Some True
     \<longleftrightarrow> (\<exists>d. ds ! i = Some d \<and> start \<le> d \<and> d \<le> finish)"
  by (cases "ds ! i") (auto simp add: period_mask_def and_kleene_def)

lemma map_of_row_at: "map_of (row_at df i) c = map_option (\<lambda>s. cell_at s i) (map_of df c)"
  by (induction df) (auto simp add: row_at_def)

lemma in_period_row:
  assumes "get_column df c = Some (Date ds)"
  shows "in_period (row_at df i) c start finish
     \<longleftrightarrow> (\<exists>d. ds ! i = Some d \<and> start \<le> d \<and> d \<le> finish)"
  using assms
  by (cases "ds ! i") (simp_all add: in_period_def map_of_row_at get_column_def opt_cell_def)

lemma wf_frame_column:
  assumes "wf_frame df" "get_column df c = Some s"
  shows "df \<noteq> []" "series_len s = height df"
proof -
  from assms(2) have m: "(c, s) \<in> set df"
    by (simp add: get_column_def map_of_SomeD)
  then show "df \<noteq> []" by auto
  from assms(1) m show "series_len s = height df"
    by (auto simp add: wf_frame_def list_all_iff)
qed

lemma filter_period_rows:
  assumes "wf_frame df" "get_column df c = Some (Date ds)"
  shows "filter_period df c start finish = Inr (df_filter (period_mask ds start finish) df)"
    and "rows (df_filter (period_mask ds start finish) df)
           = filter (\<lambda>r. in_period r c start finish) (rows df)"
proof -
  show "filter_period df c start finish = Inr (df_filter (period_mask ds start finish) df)"
    using assms(2) by (simp add: filter_period_def)
  have ne: "df \<noteq> []" and h: "height df = length ds"
    using wf_frame_column [OF assms] by simp_all
  have all: "list_all (\<lambda>(_, s). series_len s = length (period_mask ds start finish)) df"
    using assms(1) h by (simp add: wf_frame_def length_period_mask)
  have "rows (df_filter (period_mask ds start finish) df)
          = keep (period_mask ds start finish) (rows df)"
    using ne all h by (intro rows_df_filter) (simp_all add: length_period_mask)
  also have "\<dots> = filter (\<lambda>r. in_period r c start finish) (rows df)"
  proof (rule keep_filter)
    show "length (rows df) = length (period_mask ds start finish)"
      using h by (simp add: rows_def length_period_mask)
    show "\<forall>i<length (rows df). period_mask ds start finish ! i = Some True
            \<longleftrightarrow> in_period (rows df ! i) c start finish"
      using h assms(2) by (simp add: rows_def period_mask_true in_period_row)
  qed
  finally show "rows (df_filter (period_mask ds start finish) df)
           = filter (\<lambda>r. in_period r c start finish) (rows df)" .
qed

text \<open>
  C8. For every table with a parsed date column and every period window whose four bounds
  parse, the splitter returns without error exactly two sub-tables with the columns of the
  table: the rows whose date lies in \<open>[current_start, current_end]\<close> and the rows whose
  date lies in \<open>[previous_start, previous_end]\<close>, both bounds included, in table order. A
  row in neither window is in neither sub-table.
\<close>

theorem split_by_period_rows:
  assumes "strptime (current_start (comparison config)) = Inr cs"
    and "strptime (current_end (comparison config)) = Inr ce"
    and "strptime (previous_start (comparison config)) = Inr ps"
    and "strptime (previous_end (comparison config)) = Inr pe"
    and "wf_frame df"
    and "get_column df (primary_date_col config) = Some (Date ds)"
  shows "\<exists>current_df previous_df.
           split_by_period strptime df config = Inr (current_df, previous_df)
         \<and> columns current_df = columns df \<and> columns previous_df = columns df
         \<and> rows current_df = filter (\<lambda>r. in_period r (primary_date_col config) cs ce) (rows df)
         \<and> rows previous_df = filter (\<lambda>r. in_period r (primary_date_col config) ps pe) (rows df)"
  using assms(1-4) filter_period_rows [OF assms(5,6)]
  by (simp add: split_by_period_def Let_def columns_df_filter)

theorem split_by_period_rows_witness:
  "wf_frame sample_frame
   \<and> split_by_period sample_strptime sample_frame sample_config
     = Inr ([(''date'', Date [Some 20416, Some 20422]),
             (''campaign'', Utf8 [Some ''a'', None]),
             (''clicks'', Int64 [Some 10, Some 2]),
             (''impressions'', Int64 [Some 100, Some 20])],
            [(''date'', Date [Some 20409, Some 20415]),
             (''campaign'', Utf8 [Some ''b'', Some ''f'']),
             (''clicks'', Int64 [Some 5, None]),
             (''impressions'', Int64 [Some 0, Some 0])])"
  using split_by_period_rows
    [of sample_strptime sample_config 20416 20422 20409 20415 sample_frame
        "[Some 20416, Some 20409, Some 20400, None, Some 20422, Some 20415]"]
  by (simp add: split_by_period_def filter_period_def period_mask_def and_kleene_def
      df_filter_def keep_def get_column_def sample_frame_def sample_strptime_def
      sample_config_def wf_frame_def columns_def height_def Let_def)

subsection \<open>Aggregation\<close>

lemma get_column_present: "m \<in> set (columns df) \<Longrightarrow> \<exists>s. get_column df m = Some s"
  by (cases "map_of df m") (auto simp add: columns_def get_column_def map_of_eq_None_iff)

lemma sum_non_null_words:
  fixes xs :: "64 word option list"
  shows "sum_list (non_null xs)
           = word_of_int (sum_list (map (\<lambda>x. case x of None \<Rightarrow> 0 | Some w \<Rightarrow> sint w) xs))"
proof (induction xs)
  case Nil
  show ?case by (simp add: non_null_def)
next
  case (Cons x xs)
  then show ?case
    by (cases x) (simp_all add: non_null_def)
qed

lemma non_null_concat:
  "non_null xs = concat (map (\<lambda>x. case x of None \<Rightarrow> [] | Some v \<Rightarrow> [v]) xs)"
proof (induction xs)
  case Nil
  show ?case by (simp add: non_null_def)
next
  case (Cons x xs)
  then show ?case
    by (cases x) (simp_all add: non_null_def)
qed

lemma series_sum_numeric:
  assumes "is_numeric s"
  shows "\<exists>t. series_sum rt s = Inr t \<and> series_len t = 1 \<and> cell_at t 0 = column_total rt s"
proof (cases s)
  case (Int64 xs)
  then show ?thesis
    by (simp add: series_sum_def column_total_def opt_cell_def sum_non_null_words)
next
  case (Float64 xs)
  then show ?thesis
    by (simp add: series_sum_def column_total_def opt_cell_def non_null_concat)
next
  case (Utf8 xs)
  with assms show ?thesis by (simp add: is_numeric_def)
next
  case (Date xs)
  with assms show ?thesis by (simp add: is_numeric_def)
qed

lemma sum_exprs_numeric:
  assumes "\<forall>m \<in> set ms. m \<in> set (columns df) \<and> is_numeric (the (get_column df m))"
  shows "\<exists>r. sum_exprs rt df ms = Inr r \<and> columns r = ms
           \<and> list_all (\<lambda>(_, t). series_len t = 1) r
           \<and> row_at r 0 = map (\<lambda>m. (m, column_total rt (the (get_column df m)))) ms"
  using assms
proof (induction ms)
  case Nil
  show ?case by (simp add: columns_def row_at_def)
next
  case (Cons m ms)
  then obtain r where r: "sum_exprs rt df ms = Inr r" "columns r = ms"
      "list_all (\<lambda>(_, t). series_len t = 1) r"
      "row_at r 0 = map (\<lambda>m. (m, column_total rt (the (get_column df m)))) ms"
    by auto
  from Cons.prems obtain s where s: "get_column df m = Some s" "is_numeric s"
    using get_column_present [of m df] by auto
  then obtain t where t: "series_sum rt s = Inr t" "series_len t = 1"
      "cell_at t 0 = column_total rt s"
    using series_sum_numeric by blast
  show ?case
    using r s t by (simp add: columns_def row_at_def)
qed

text \<open>
  C1, as the code has it. With a non-empty dimension list whose columns are all in the
  table, aggregation fails with NoValidMetrics when no requested metric is a column of the
  table; a dimension missing from the table is reported first, as MissingColumn. With the
  empty dimension list and at least one requested metric in the table (each requested
  once, each a numeric column), the result is exactly one row over the present metrics, in
  the order requested, each with the total of its column over the whole table: for an
  integer column the sum of its cells reduced to 64 bits (it wraps on overflow), for a
  Float64 column the Float64 sum of its non-null cells.
\<close>

theorem aggregate_by_dimensions_cases:
  "(dims \<noteq> [] \<and> set dims \<subseteq> set (columns df) \<and> set ms \<inter> set (columns df) = {}
      \<longrightarrow> aggregate_by_dimensions rt df dims ms = Inl NoValidMetrics)
   \<and> (dims \<noteq> [] \<and> \<not> set dims \<subseteq> set (columns df)
      \<longrightarrow> aggregate_by_dimensions rt df dims ms
            = Inl (MissingColumn (filter (\<lambda>d. d \<notin> set (columns df)) dims)))
   \<and> (filter (\<lambda>m. m \<in> set (columns df)) ms \<noteq> []
        \<and> distinct (filter (\<lambda>m. m \<in> set (columns df)) ms)
        \<and> (\<forall>m \<in> set ms. m \<in> set (columns df) \<longrightarrow> is_numeric (the (get_column df m)))
      \<longrightarrow> (\<exists>r. aggregate_by_dimensions rt df [] ms = Inr r
             \<and> columns r = filter (\<lambda>m. m \<in> set (columns df)) ms
             \<and> rows r = [map (\<lambda>m. (m, column_total rt (the (get_column df m))))
                           (filter (\<lambda>m. m \<in> set (columns df)) ms)]))"
proof (intro conjI impI)
  assume "dims \<noteq> [] \<and> set dims \<subseteq> set (columns df) \<and> set ms \<inter> set (columns df) = {}"
  then have "dims \<noteq> []" "filter (\<lambda>d. d \<notin> set (columns df)) dims = []"
      "filter (\<lambda>m. m \<in> set (columns df)) ms = []"
    by (auto simp add: filter_empty_conv)
  then show "aggregate_by_dimensions rt df dims ms = Inl NoValidMetrics"
    by (simp add: aggregate_by_dimensions_def)
next
  assume "dims \<noteq> [] \<and> \<not> set dims \<subseteq> set (columns df)"
  then have "dims \<noteq> []" "filter (\<lambda>d. d \<notin> set (columns df)) dims \<noteq> []"
    by (auto simp add: filter_empty_conv)
  then show "aggregate_by_dimensions rt df dims ms
      = Inl (MissingColumn (filter (\<lambda>d. d \<notin> set (columns df)) dims))"
    by (simp add: aggregate_by_dimensions_def Let_def)
next
  let ?present = "filter (\<lambda>m. m \<in> set (columns df)) ms"
  assume a: "?present \<noteq> [] \<and> distinct ?present
      \<and> (\<forall>m \<in> set ms. m \<in> set (columns df) \<longrightarrow> is_numeric (the (get_column df m)))"
  then have "\<forall>m \<in> set ?present. m \<in> set (columns df) \<and> is_numeric (the (get_column df m))"
    by simp
  from sum_exprs_numeric [OF this] obtain r where r: "sum_exprs rt df ?present = Inr r"
      "columns r = ?present" "list_all (\<lambda>(_, t). series_len t = 1) r"
      "row_at r 0 = map (\<lambda>m. (m, column_total rt (the (get_column df m)))) ?present"
    by blast
  from a r(2) have "r \<noteq> []" by (auto simp add: columns_def)
  with r(3) have "height r = 1"
    by (cases r) (auto simp add: height_def)
  then have "rows r = [row_at r 0]"
    by (simp add: rows_def)
  with a r show "\<exists>r. aggregate_by_dimensions rt df [] ms = Inr r \<and> columns r = ?present
      \<and> rows r = [map (\<lambda>m. (m, column_total rt (the (get_column df m)))) ?present]"
    by (simp add: aggregate_by_dimensions_def select_sums_def)
qed

theorem aggregate_by_dimensions_cases_witness:
  "aggregate_by_dimensions sample_runtime sample_frame [''campaign''] [''revenue'']
       = Inl NoValidMetrics
   \<and> aggregate_by_dimensions sample_runtime sample_frame [''region''] [''revenue'']
       = Inl (MissingColumn [''region''])
   \<and> aggregate_by_dimensions sample_runtime sample_frame []
         [''clicks'', ''revenue'', ''impressions'']
       = Inr [(''clicks'', Int64 [Some 25]), (''impressions'', Int64 [Some 190])]
   \<and> aggregate_by_dimensions sample_runtime spend_frame [] [''spend'', ''views'']
       = Inr [(''spend'', Float64 [Some (Fin 3.75)]), (''views'', Int64 [Some 9])]"
  using aggregate_by_dimensions_cases
      [of "[''campaign'']" sample_frame "[''revenue'']" sample_runtime]
    aggregate_by_dimensions_cases
      [of "[''region'']" sample_frame "[''revenue'']" sample_runtime]
    aggregate_by_dimensions_cases
      [of "[''campaign'']" sample_frame "[''clicks'', ''revenue'', ''impressions'']"
          sample_runtime]
  by (simp add: aggregate_by_dimensions_def select_sums_def series_sum_def get_column_def
      sample_frame_def spend_frame_def sample_runtime_def columns_def non_null_def exact_def)

text \<open>
  C1 as stated fails on three inputs. Where no requested metric is in the table: with the
  empty dimension list the result is the empty frame and no error, and with a dimension
  that is not in the table the error is MissingColumn. Where the integer sum leaves the
  64-bit range: the cells \<open>2\<^sup>6\<^sup>3 - 1\<close> and \<open>1\<close> give \<open>-2\<^sup>6\<^sup>3\<close>.
\<close>

theorem aggregate_by_dimensions_no_metric_counterexample:
  "aggregate_by_dimensions sample_runtime sample_frame [] [''revenue''] = Inr []
   \<and> aggregate_by_dimensions sample_runtime sample_frame [''region''] [''revenue'']
       = Inl (MissingColumn [''region''])
   \<and> ''revenue'' \<notin> set (columns sample_frame)
   \<and> aggregate_by_dimensions sample_runtime
         [(''views'', Int64 [Some 9223372036854775807, Some 1])] [] [''views'']
       = Inr [(''views'', Int64 [Some 9223372036854775808])]
   \<and> sint (9223372036854775808 :: 64 word) = - 9223372036854775808"
  by (simp add: aggregate_by_dimensions_def select_sums_def series_sum_def get_column_def
      sample_frame_def columns_def non_null_def)

subsection \<open>Derived metrics\<close>

lemma get_column_with_columns: "get_column (with_columns df name s) name = Some s"
proof (cases "name \<in> set (columns df)")
  case True
  then have "map_of (map (\<lambda>(k, c). if k = name then (k, s) else (k, c)) df) name = Some s"
    by (induction df) (auto simp add: columns_def)
  with True show ?thesis
    by (simp add: with_columns_def get_column_def)
next
  case False
  then have "map_of df name = None"
    by (simp add: columns_def map_of_eq_None_iff)
  with False show ?thesis
    by (simp add: with_columns_def get_column_def map_add_def)
qed

lemma cast_float64_numeric:
  assumes "is_numeric s"
  shows "\<exists>col. cast_float64 rt s = Inr col \<and> length col = series_len s
           \<and> (\<forall>i < series_len s. col ! i = promote (round_f64 rt) (cell_at s i))"
proof (cases s)
  case (Int64 xs)
  have "\<forall>i < length xs. map_option (\<lambda>w. round_f64 rt (of_int (sint w))) (xs ! i)
          = promote (round_f64 rt) (opt_cell IntCell (xs ! i))"
    by (simp add: opt_cell_def split: option.splits)
  with Int64 show ?thesis
    by (simp add: cast_float64_def)
next
  case (Float64 xs)
  have "\<forall>i < length xs. xs ! i = promote (round_f64 rt) (opt_cell FloatCell (xs ! i))"
    by (simp add: opt_cell_def split: option.splits)
  with Float64 show ?thesis
    by (simp add: cast_float64_def)
next
  case (Utf8 xs)
  with assms show ?thesis by (simp add: is_numeric_def)
next
  case (Date xs)
  with assms show ?thesis by (simp add: is_numeric_def)
qed

lemma promote_zero:
  assumes "rnd 0 = Fin 0" "c = IntCell 0 \<or> c = FloatCell (Fin 0)"
  shows "promote rnd c = Some (Fin 0)"
  using assms by auto

lemma promote_nonzero:
  assumes "\<And>k :: int. k \<noteq> 0 \<Longrightarrow> rnd (of_int k) \<noteq> Fin 0"
    and "promote rnd c = Some v" "c \<noteq> IntCell 0" "c \<noteq> FloatCell (Fin 0)"
  shows "v \<noteq> Fin 0"
proof (cases c)
  case (IntCell w)
  with assms(3) have "sint w \<noteq> 0" by (auto simp add: signed_eq_0_iff)
  with assms(1) have "rnd (of_int (sint w)) \<noteq> Fin 0" by blast
  with IntCell assms(2) show ?thesis by auto
next
  case (FloatCell u)
  with assms(2,4) show ?thesis by auto
qed (use assms(2) in auto)

lemma guarded_div_cells:
  assumes "rnd 0 = Fin 0" "\<And>k :: int. k \<noteq> 0 \<Longrightarrow> rnd (of_int k) \<noteq> Fin 0"
  shows "(c2 = IntCell 0 \<or> c2 = FloatCell (Fin 0)
            \<longrightarrow> guarded_div rnd (promote rnd c1) (promote rnd c2) = Some (Fin 0))
       \<and> (\<forall>v. promote rnd c2 = Some v \<and> c2 \<noteq> IntCell 0 \<and> c2 \<noteq> FloatCell (Fin 0)
            \<longrightarrow> guarded_div rnd (promote rnd c1) (promote rnd c2)
                  = (case promote rnd c1 of None \<Rightarrow> None | Some u \<Rightarrow> Some (f64_div rnd u v)))"
proof (intro conjI impI allI)
  assume "c2 = IntCell 0 \<or> c2 = FloatCell (Fin 0)"
  with assms(1) have "promote rnd c2 = Some (Fin 0)"
    by (rule promote_zero)
  then show "guarded_div rnd (promote rnd c1) (promote rnd c2) = Some (Fin 0)"
    by (simp add: guarded_div_def ne_zero_def)
next
  fix v
  assume a: "promote rnd c2 = Some v \<and> c2 \<noteq> IntCell 0 \<and> c2 \<noteq> FloatCell (Fin 0)"
  with assms(2) have "v \<noteq> Fin 0"
    using promote_nonzero [of rnd c2 v] by blast
  with a show "guarded_div rnd (promote rnd c1) (promote rnd c2)
      = (case promote rnd c1 of None \<Rightarrow> None | Some u \<Rightarrow> Some (f64_div rnd u v))"
    by (simp add: guarded_div_def ne_zero_def lift2_def split: option.splits)
qed


text \<open>
  C4. For every formula whose operator is division over two numeric columns of a table,
  the new column is computed without error and has one cell per row; in every row, a
  divisor cell equal to 0 (integer 0 or float 0.0) gives exactly the cell 0.0, not NaN and
  not an infinity; any other non-null divisor cell gives the Float64 quotient of the two
  operand cells promoted to Float64, null when the dividend cell is null. Of the rounding
  only two facts are used: 0 rounds to 0.0, and no integer other than 0 rounds to 0.0.
\<close>

theorem compute_derived_metric_division:
  assumes "parse_formula rt formula = Inr (operand1, ''/'', operand2)"
    and "wf_frame df"
    and "get_column df operand1 = Some s1" and "get_column df operand2 = Some s2"
    and "is_numeric s1" and "is_numeric s2"
    and "round_f64 rt 0 = Fin 0"
    and "\<And>k :: int. k \<noteq> 0 \<Longrightarrow> round_f64 rt (of_int k) \<noteq> Fin 0"
  shows "\<exists>df' new. compute_derived_metric rt df metric_name formula = Inr df'
           \<and> get_column df' metric_name = Some (Float64 new)
           \<and> length new = height df
           \<and> (\<forall>i < height df.
                 (cell_at s2 i = IntCell 0 \<or> cell_at s2 i = FloatCell (Fin 0)
                    \<longrightarrow> new ! i = Some (Fin 0))
               \<and> (\<forall>v. promote (round_f64 rt) (cell_at s2 i) = Some v
                        \<and> cell_at s2 i \<noteq> IntCell 0 \<and> cell_at s2 i \<noteq> FloatCell (Fin 0)
                    \<longrightarrow> new ! i = (case promote (round_f64 rt) (cell_at s1 i) of
                                     None \<Rightarrow> None
                                   | Some u \<Rightarrow> Some (f64_div (round_f64 rt) u v))))"
proof -
  let ?rnd = "round_f64 rt"
  have h1: "series_len s1 = height df" and h2: "series_len s2 = height df"
    using wf_frame_column [OF assms(2)] assms(3,4) by simp_all
  obtain col1 where c1: "cast_float64 rt s1 = Inr col1" "length col1 = height df"
      "\<forall>i < height df. col1 ! i = promote ?rnd (cell_at s1 i)"
    using cast_float64_numeric [OF assms(5), of rt] h1 by auto
  obtain col2 where c2: "cast_float64 rt s2 = Inr col2" "length col2 = height df"
      "\<forall>i < height df. col2 ! i = promote ?rnd (cell_at s2 i)"
    using cast_float64_numeric [OF assms(6), of rt] h2 by auto
  let ?new = "map2 (guarded_div ?rnd) col1 col2"
  have r: "compute_derived_metric rt df metric_name formula
             = Inr (with_columns df metric_name (Float64 ?new))"
    using assms(1,3,4) c1(1) c2(1) by (simp add: compute_derived_metric_def)
  have l: "length ?new = height df"
    using c1(2) c2(2) by simp
  have n: "\<forall>i < height df. ?new ! i
             = guarded_div ?rnd (promote ?rnd (cell_at s1 i)) (promote ?rnd (cell_at s2 i))"
    using c1 c2 by simp
  have c: "\<forall>i < height df.
                 (cell_at s2 i = IntCell 0 \<or> cell_at s2 i = FloatCell (Fin 0)
                    \<longrightarrow> ?new ! i = Some (Fin 0))
               \<and> (\<forall>v. promote ?rnd (cell_at s2 i) = Some v
                        \<and> cell_at s2 i \<noteq> IntCell 0 \<and> cell_at s2 i \<noteq> FloatCell (Fin 0)
                    \<longrightarrow> ?new ! i = (case promote ?rnd (cell_at s1 i) of
                                     None \<Rightarrow> None
                                   | Some u \<Rightarrow> Some (f64_div ?rnd u v)))"
  proof (intro allI impI)
    fix i
    assume "i < height df"
    with n have e: "?new ! i
        = guarded_div ?rnd (promote ?rnd (cell_at s1 i)) (promote ?rnd (cell_at s2 i))"
      by blast
    show "(cell_at s2 i = IntCell 0 \<or> cell_at s2 i = FloatCell (Fin 0)
                    \<longrightarrow> ?new ! i = Some (Fin 0))
               \<and> (\<forall>v. promote ?rnd (cell_at s2 i) = Some v
                        \<and> cell_at s2 i \<noteq> IntCell 0 \<and> cell_at s2 i \<noteq> FloatCell (Fin 0)
                    \<longrightarrow> ?new ! i = (case promote ?rnd (cell_at s1 i) of
                                     None \<Rightarrow> None
                                   | Some u \<Rightarrow> Some (f64_div ?rnd u v)))"
      unfolding e
      using guarded_div_cells [of ?rnd "cell_at s2 i" "cell_at s1 i", OF assms(7,8)]
      by blast
  qed
  show ?thesis
    using r l c get_column_with_columns [of df metric_name "Float64 ?new"] by blast
qed

theorem compute_derived_metric_division_witness:
  "compute_derived_metric sample_runtime sample_frame ''ctr'' ''clicks / impressions''
     = Inr (sample_frame @
         [(''ctr'', Float64 [Some (Fin (1 / 10)), Some (Fin 0), Some (Fin (1 / 10)),
                            Some (Fin 0), Some (Fin (1 / 10)), Some (Fin 0)])])"
proof -
  have p: "parse_formula sample_runtime ''clicks / impressions''
             = Inr (''clicks'', ''/'', ''impressions'')"
    by (simp add: parse_formula_def is_word_def is_space_def utf8_extra_def)
  have w: "wf_frame sample_frame"
    by (simp add: wf_frame_def sample_frame_def columns_def height_def)
  have g1: "get_column sample_frame ''clicks''
              = Some (Int64 [Some 10, Some 5, Some 7, Some 1, Some 2, None])"
    and g2: "get_column sample_frame ''impressions''
              = Some (Int64 [Some 100, Some 0, Some 70, None, Some 20, Some 0])"
    by (simp_all add: get_column_def sample_frame_def)
  have n1: "is_numeric (Int64 [Some 10, Some 5, Some 7, Some 1, Some 2, None])"
    and n2: "is_numeric (Int64 [Some 100, Some 0, Some 70, None, Some 20, Some 0])"
    by (simp_all add: is_numeric_def)
  have r0: "round_f64 sample_runtime 0 = Fin 0"
    by (simp add: sample_runtime_def exact_def)
  have rk: "\<And>k :: int. k \<noteq> 0 \<Longrightarrow> round_f64 sample_runtime (of_int k) \<noteq> Fin 0"
    by (simp add: sample_runtime_def exact_def)
  have rf: "round_f64 sample_runtime = exact"
    by (simp add: sample_runtime_def)
  from compute_derived_metric_division [OF p w g1 g2 n1 n2 r0 rk, of "''ctr''"]
  show ?thesis
    by (simp add: compute_derived_metric_def p rf get_column_def sample_frame_def
        cast_float64_def with_columns_def columns_def guarded_div_def ne_zero_def lift2_def
        exact_def)
qed

text \<open>A formula with a word character outside ASCII is split into the same three groups.\<close>

lemma parse_formula_unicode_example:
  "parse_formula (sample_runtime\<lparr>unicode_word := (\<lambda>ch. ch = [CHR 0xC3, CHR 0xA9])\<rparr>)
     [CHR ''c'', CHR 0xC3, CHR 0xA9, CHR '' '', CHR ''/'', CHR ''x'']
   = Inr ([CHR ''c'', CHR 0xC3, CHR 0xA9], ''/'', ''x'')"
  by (simp add: parse_formula_def is_word_def is_space_def utf8_extra_def)

section \<open>Properties of the insight engine\<close>

subsection \<open>Percentage change\<close>

lemma f64_abs_zero: "f64_abs p = Fin 0 \<longleftrightarrow> p = Fin 0"
  by (cases p) auto

text \<open>
  C5, as the code has it. \<open>compute_delta_pct x x\<close> is 0 for every finite \<open>x\<close>;
  \<open>compute_delta_pct x 0\<close> is 0 when \<open>x = 0\<close> and the sign of \<open>x\<close> times 100 otherwise, for
  every \<open>x\<close> that is not NaN; and for a previous value other than 0 the result is
  \<open>((current - previous) / |previous|) * 100\<close> in float arithmetic, without error. Of the
  rounding only one fact is used: 0 rounds to 0.0.
\<close>

theorem compute_delta_pct_laws:
  "(rnd 0 = Fin 0 \<longrightarrow> compute_delta_pct rnd (Fin x) (Fin x) = Inr (Fin 0))
   \<and> (y \<noteq> NaN \<longrightarrow> compute_delta_pct rnd y (Fin 0) = Inr (Fin (f64_sign y * 100)))
   \<and> (previous \<noteq> Fin 0 \<longrightarrow>
        compute_delta_pct rnd current previous
          = Inr (f64_mul rnd (f64_div rnd (f64_sub rnd current previous) (f64_abs previous))
                   (Fin 100)))"
proof (intro conjI impI)
  assume r: "rnd 0 = Fin 0"
  show "compute_delta_pct rnd (Fin x) (Fin x) = Inr (Fin 0)"
    using r by (simp add: compute_delta_pct_def py_truediv_def f64_sub_def)
next
  assume "y \<noteq> NaN"
  then show "compute_delta_pct rnd y (Fin 0) = Inr (Fin (f64_sign y * 100))"
    by (cases y) (auto simp add: compute_delta_pct_def sgn_real_def)
next
  assume "previous \<noteq> Fin 0"
  then show "compute_delta_pct rnd current previous
      = Inr (f64_mul rnd (f64_div rnd (f64_sub rnd current previous) (f64_abs previous))
               (Fin 100))"
    by (simp add: compute_delta_pct_def py_truediv_def f64_abs_zero)
qed

theorem compute_delta_pct_laws_witness:
  "compute_delta_pct exact (Fin 7) (Fin 7) = Inr (Fin 0)
   \<and> compute_delta_pct exact (Fin (- 3)) (Fin 0) = Inr (Fin (- 100))
   \<and> compute_delta_pct exact PInf (Fin 0) = Inr (Fin 100)
   \<and> compute_delta_pct exact (Fin 300) (Fin 200) = Inr (Fin 50)"
  using compute_delta_pct_laws [of exact 7 "Fin (- 3)" "Fin 200" "Fin 300"]
    compute_delta_pct_laws [of exact 7 PInf "Fin 200" "Fin 300"]
  by (simp add: exact_def f64_sub_def)

text \<open>
  C5 as stated fails at the non-finite values: \<open>x - x\<close> is NaN for an infinite \<open>x\<close> and for
  NaN, so \<open>compute_delta_pct x x\<close> is NaN there, and \<open>compute_delta_pct x 0\<close> is \<open>-100\<close> for
  NaN, which has no sign. The results do not depend on the rounding.
\<close>

theorem compute_delta_pct_non_finite_counterexample:
  "compute_delta_pct exact PInf PInf = Inr NaN
   \<and> compute_delta_pct exact NInf NInf = Inr NaN
   \<and> compute_delta_pct exact NaN NaN = Inr NaN
   \<and> compute_delta_pct exact NaN (Fin 0) = Inr (Fin (- 100))"
  by (simp add: compute_delta_pct_def py_truediv_def f64_sub_def)

subsection \<open>Impact score\<close>







subsection \<open>Ranking\<close>

lemma rank_fixed:
  assumes "sorted (map (\<lambda>x. - impact_score x) ys)" "\<forall>y \<in> set ys. impact_score y \<ge> m"
  shows "sort_key (\<lambda>x. - impact_score x) (filter (\<lambda>i. impact_score i \<ge> m) ys) = ys"
proof -
  have "filter (\<lambda>i. impact_score i \<ge> m) ys = ys"
    using assms(2) by (simp add: filter_id_conv)
  then show ?thesis
    using assms(1) by (simp add: sort_key_id_if_sorted)
qed

lemma take_rank_fixed:
  fixes xs :: "InsightRecord list" and m :: real
  defines "r \<equiv> sort_key (\<lambda>x. - impact_score x) (filter (\<lambda>i. impact_score i \<ge> m) xs)"
  shows "sort_key (\<lambda>x. - impact_score x) (filter (\<lambda>i. impact_score i \<ge> m) (take k r)) = take k r"
proof (rule rank_fixed)
  have "sorted (map (\<lambda>x. - impact_score x) r)"
    by (simp add: r_def)
  then have "sorted (take k (map (\<lambda>x. - impact_score x) r))"
    by (rule sorted_wrt_take)
  then show "sorted (map (\<lambda>x. - impact_score x) (take k r))"
    by (simp add: take_map)
  have "\<forall>y \<in> set r. impact_score y \<ge> m"
    by (simp add: r_def)
  then show "\<forall>y \<in> set (take k r). impact_score y \<ge> m"
    by (meson in_set_takeD)
qed

lemma rank_rank_untruncated:
  fixes xs :: "InsightRecord list" and m :: real
  defines "r \<equiv> sort_key (\<lambda>x. - impact_score x) (filter (\<lambda>i. impact_score i \<ge> m) xs)"
  shows "sort_key (\<lambda>x. - impact_score x) (filter (\<lambda>i. impact_score i \<ge> m) r) = r"
  using take_rank_fixed [of m "length r" xs] by (simp add: r_def)

lemma rank_insights_untruncated:
  "top_n = None \<or> top_n = Some 0 \<Longrightarrow> rank_insights xs top_n m
     = sort_key (\<lambda>x. - impact_score x) (filter (\<lambda>i. impact_score i \<ge> m) xs)"
  by (auto simp add: rank_insights_def)

lemma rank_insights_truncated:
  "0 < n \<Longrightarrow> rank_insights xs (Some n) m
     = take (nat n) (sort_key (\<lambda>x. - impact_score x) (filter (\<lambda>i. impact_score i \<ge> m) xs))"
  by (simp add: rank_insights_def py_slice_to_def)

text \<open>
  C7, as the code has it. For every list of records, every \<open>min_impact\<close> and every \<open>top_n\<close>
  that is \<^verbatim>\<open>None\<close> or not negative, ranking the output of \<open>rank_insights\<close> again with the
  same \<open>top_n\<close> and \<open>min_impact\<close> returns that output unchanged.
\<close>

theorem rank_insights_idempotent:
  assumes "case top_n of None \<Rightarrow> True | Some n \<Rightarrow> 0 \<le> n"
  shows "rank_insights (rank_insights insights top_n min_impact) top_n min_impact
           = rank_insights insights top_n min_impact"
proof (cases "top_n = None \<or> top_n = Some 0")
  case True
  then show ?thesis
    by (simp only: rank_insights_untruncated rank_rank_untruncated)
next
  case False
  with assms obtain n where n: "top_n = Some n" "0 < n"
    by (cases top_n) auto
  then show ?thesis
    by (simp only: rank_insights_truncated take_rank_fixed take_take min.idem)
qed

theorem rank_insights_idempotent_witness:
  "rank_insights
     (rank_insights [sample_insight ''a'' 1, sample_insight ''b'' 3, sample_insight ''c'' 2]
        (Some 2) 0) (Some 2) 0
     = [sample_insight ''b'' 3, sample_insight ''c'' 2]"
  using rank_insights_idempotent
    [of "Some 2" "[sample_insight ''a'' 1, sample_insight ''b'' 3, sample_insight ''c'' 2]" 0]
  by (simp add: rank_insights_def py_slice_to_def sample_insight_def)

text \<open>
  C7 as stated fails for a negative \<open>top_n\<close>: \<^verbatim>\<open>ranked[:-1]\<close> drops the last record each
  time it is applied.
\<close>

theorem rank_insights_negative_top_n_counterexample:
  "rank_insights [sample_insight ''a'' 1, sample_insight ''b'' 3, sample_insight ''c'' 2]
      (Some (- 1)) 0 = [sample_insight ''b'' 3, sample_insight ''c'' 2]
   \<and> rank_insights
       (rank_insights [sample_insight ''a'' 1, sample_insight ''b'' 3, sample_insight ''c'' 2]
          (Some (- 1)) 0) (Some (- 1)) 0 = [sample_insight ''b'' 3]"
  by (simp add: rank_insights_def py_slice_to_def sample_insight_def)

text \<open>
  C10. With \<open>top_n = 0\<close> nothing is truncated: the result is the whole filtered and sorted
  list, the same as with no \<open>top_n\<close>; only a \<open>top_n\<close> that is given and not 0 slices the list.
\<close>

theorem rank_insights_top_n_zero:
  "rank_insights insights (Some 0) min_impact
     = sort_key (\<lambda>x. - impact_score x) (filter (\<lambda>i. impact_score i \<ge> min_impact) insights)
   \<and> rank_insights insights (Some 0) min_impact = rank_insights insights None min_impact
   \<and> (n \<noteq> 0 \<longrightarrow> rank_insights insights (Some n) min_impact
        = py_slice_to (rank_insights insights None min_impact) n)"
  by (simp add: rank_insights_def)

theorem rank_insights_top_n_zero_witness:
  "rank_insights [sample_insight ''a'' 1, sample_insight ''b'' 3, sample_insight ''c'' 2]
      (Some 0) 2 = [sample_insight ''b'' 3, sample_insight ''c'' 2]
   \<and> rank_insights [sample_insight ''a'' 1, sample_insight ''b'' 3, sample_insight ''c'' 2]
      (Some 1) 2 = [sample_insight ''b'' 3]"
  using rank_insights_top_n_zero
    [of "[sample_insight ''a'' 1, sample_insight ''b'' 3, sample_insight ''c'' 2]" 2 1]
  by (simp add: rank_insights_def py_slice_to_def sample_insight_def)

end
